theory Spec2Isabelle
  imports Main "HOL-Library.Multiset" "HOL-Library.Char_ord" "HOL-Library.List_Lexorder"
begin

section \<open>Python values shared by the handlers\<close>

text \<open>
  Text and byte strings are lists of characters. With \<open>Char_ord\<close> and
  \<open>List_Lexorder\<close> they are compared as Python compares \<open>bytes\<close> (and
  UTF-8 encoded \<open>str\<close>): lexicographically, character by character.
\<close>

text \<open>The exceptions the module raises, or lets escape, as values.\<close>

datatype error =
    IgnoreResourceException
  | ResourcePurged
  | ResourceNotFoundExcpetion string
  | Exception string
  | KeyError
  | ValueError
  | TypeError
  | IOError

text \<open>The Python values the handlers put into dictionaries and tuples.\<close>

datatype py_value =
    PyNone
  | PyBool bool
  | PyInt int
  | PyStr string
  | PyTuple py_value py_value

text \<open>Truth value testing, as \<open>not x\<close> and \<open>if x\<close> do it.\<close>

fun truthy :: "py_value \<Rightarrow> bool" where
  "truthy PyNone = False"
| "truthy (PyBool b) = b"
| "truthy (PyInt i) = (i \<noteq> 0)"
| "truthy (PyStr s) = (s \<noteq> [])"
| "truthy (PyTuple a b) = True"

text \<open>A dictionary with string keys; \<open>d[k]\<close> raises \<open>KeyError\<close> on a missing key.\<close>

type_synonym 'v dict = "string \<rightharpoonup> 'v"

definition getitem :: "'v dict \<Rightarrow> string \<Rightarrow> error + 'v" where
  "getitem d k = (case d k of None \<Rightarrow> Inl KeyError | Some v \<Rightarrow> Inr v)"

text \<open>One statement after another: an exception ends the function.\<close>

definition bind_result :: "error + 'a \<Rightarrow> ('a \<Rightarrow> error + 'b) \<Rightarrow> error + 'b" where
  "bind_result r k = (case r of Inl e \<Rightarrow> Inl e | Inr x \<Rightarrow> k x)"

text \<open>
  Python keeps text (\<open>str\<close>) and bytes apart: \<open>a + b\<close> joins two texts or two
  byte strings and raises \<open>TypeError\<close> when one is text and the other bytes.
\<close>

datatype file_data = Text string | Bytes string

fun concat_data :: "file_data \<Rightarrow> file_data \<Rightarrow> error + file_data" where
  "concat_data (Text a) (Text b) = Inr (Text (a @ b))"
| "concat_data (Bytes a) (Bytes b) = Inr (Bytes (a @ b))"
| "concat_data (Text a) (Bytes b) = Inl TypeError"
| "concat_data (Bytes a) (Text b) = Inl TypeError"

text \<open>\<open>seperator.join(parts)\<close>.\<close>

fun join :: "string \<Rightarrow> string list \<Rightarrow> string" where
  "join sep [] = []"
| "join sep [x] = x"
| "join sep (x # y # ys) = x @ sep @ join sep (y # ys)"

section \<open>Content assembler: \<open>generate_content\<close> and \<open>store_file\<close>\<close>

text \<open>A content fragment: \<open>content.value\<close> and \<open>content.sorting_key\<close>
  (\<open>None\<close> when absent). The values, the sorting keys and the separator are string
  attributes of the configuration model, that is, text.\<close>

record content_fragment =
  frag_value :: string
  sorting_key :: "string option"

text \<open>The tuple the first loop of \<open>generate_content\<close> appends to \<open>sort_list\<close>.\<close>

definition sort_tuple :: "content_fragment \<Rightarrow> string \<times> string" where
  "sort_tuple content =
     (case sorting_key content of
        None \<Rightarrow> (frag_value content, frag_value content)
      | Some k \<Rightarrow> (k, frag_value content))"

text \<open>
  \<open>sort_list.sort(key=lambda tup: tup[0])\<close> is a stable sort on the first
  component; \<open>sort_key\<close> is the stable (insertion) sort of the library.
\<close>

definition generate_content :: "content_fragment list \<Rightarrow> string \<Rightarrow> string" where
  "generate_content content_list seperator =
     (let sort_list = sort_key fst (map sort_tuple content_list)
      in join seperator (map snd sort_list) @ seperator)"

text \<open>
  \<open>obj.content\<close> is an \<open>Unknown\<close>, a file marker naming a local file, or the
  payload itself, which is text.
\<close>

datatype payload = Unknown | FileMarker string | Plain string

record file_obj =
  content :: payload
  prefix_content :: "content_fragment list"
  suffix_content :: "content_fragment list"
  content_seperator :: string

text \<open>What \<open>store_file\<close> returns: the \<open>Unknown\<close> it was given, or the result
  of \<open>exporter.upload_file\<close>.\<close>

datatype 'h stored = StoredUnknown | Uploaded 'h

text \<open>
  Lines 67 to 70: the fragments are put around the loaded payload \<open>c0\<close>. The
  prefix block and the suffix block are text; the payload is text when it was given
  directly and bytes when it was read from a file, and then each \<open>+\<close> with a block
  of fragments raises \<open>TypeError\<close>.
\<close>

definition add_fragments :: "file_obj \<Rightarrow> file_data \<Rightarrow> error + file_data" where
  "add_fragments obj c0 =
     bind_result
       (if length (prefix_content obj) > 0
        then concat_data
               (Text (generate_content (prefix_content obj) (content_seperator obj)
                      @ content_seperator obj))
               c0
        else Inr c0) (\<lambda>c1.
     if length (suffix_content obj) > 0
     then concat_data c1
            (Text (content_seperator obj
                   @ generate_content (suffix_content obj) (content_seperator obj)))
     else Inr c1)"

text \<open>
  \<open>read_local\<close> stands for \<open>open(filename, "rb").read()\<close>, which gives bytes
  (\<open>None\<close> when the file cannot be read), and \<open>upload_file\<close> for the exporter's
  method, which takes text or bytes.
\<close>

definition store_file ::
  "(string \<Rightarrow> string option) \<Rightarrow> (file_data \<Rightarrow> 'h) \<Rightarrow> file_obj \<Rightarrow> error + 'h stored" where
  "store_file read_local upload_file obj =
     (case content obj of
        Unknown \<Rightarrow> Inr StoredUnknown
      | FileMarker filename \<Rightarrow>
          (case read_local filename of
             None \<Rightarrow> Inl IOError
           | Some b \<Rightarrow>
               bind_result (add_fragments obj (Bytes b))
                 (\<lambda>c. Inr (Uploaded (upload_file c))))
      | Plain c0 \<Rightarrow>
          bind_result (add_fragments obj (Text c0))
            (\<lambda>c. Inr (Uploaded (upload_file c))))"

section \<open>\<open>AgentConfig.get_autostart\<close>\<close>

text \<open>
  The model object handed to a field mapping. Reading \<open>obj.autostart\<close> either
  yields a value or raises (an unset attribute raises); the record holds the outcome
  of that evaluation.
\<close>

record model_object =
  autostart :: "error + py_value"

definition get_autostart :: "model_object \<Rightarrow> error + py_value" where
  "get_autostart obj =
     (let try_block =
            (case autostart obj of
               Inl e \<Rightarrow> Inl e
             | Inr v \<Rightarrow> if \<not> truthy v then Inl IgnoreResourceException else Inr ())
      in case try_block of
           Inl e \<Rightarrow> Inl IgnoreResourceException
         | Inr u \<Rightarrow> autostart obj)"

section \<open>Handlers: calls on the host and the handler context\<close>

text \<open>
  The handlers act on the host through \<open>self._io\<close> and report through
  \<open>ctx\<close>. Every call that changes the host is recorded, in order, in a trace;
  the context keeps the last outcome that was set.
\<close>

datatype io_call =
    Put string string
  | Chmod string string
  | Chown string string string
  | Remove string

datatype change = Nochange | Created | Updated | Purged

record handler_state =
  calls :: "io_call list"
  ctx_change :: change

type_synonym 'a action = "handler_state \<Rightarrow> (error + 'a) \<times> handler_state"

definition skip :: "unit action" where
  "skip s = (Inr (), s)"

definition raise :: "error \<Rightarrow> 'a action" where
  "raise e s = (Inl e, s)"

definition io :: "io_call \<Rightarrow> unit action" where
  "io c s = (Inr (), s\<lparr>calls := calls s @ [c]\<rparr>)"

definition set_change :: "change \<Rightarrow> unit action" where
  "set_change c s = (Inr (), s\<lparr>ctx_change := c\<rparr>)"

text \<open>Sequencing: an exception ends the method, what was done before stays done.\<close>

definition bind_action :: "'a action \<Rightarrow> ('a \<Rightarrow> 'b action) \<Rightarrow> 'b action" where
  "bind_action m k s =
     (case m s of
        (Inl e, s') \<Rightarrow> (Inl e, s')
      | (Inr x, s') \<Rightarrow> k x s')"

definition then_action :: "unit action \<Rightarrow> 'b action \<Rightarrow> 'b action" where
  "then_action m k = bind_action m (\<lambda>u. k)"

definition lift_result :: "error + 'a \<Rightarrow> 'a action" where
  "lift_result r s = (r, s)"

definition start :: handler_state where
  "start = \<lparr>calls = [], ctx_change = Nochange\<rparr>"

text \<open>\<open>str(n)\<close> for an integer.\<close>

fun str_nat :: "nat \<Rightarrow> string" where
  "str_nat n =
     (if n < 10 then [char_of (48 + n)]
      else str_nat (n div 10) @ [char_of (48 + n mod 10)])"

declare str_nat.simps [simp del]

definition str_int :: "int \<Rightarrow> string" where
  "str_int i = (if i < 0 then CHR ''-'' # str_nat (nat (- i)) else str_nat (nat i))"

section \<open>\<open>PosixFileProvider\<close>\<close>

record file_resource =
  path :: string
  owner :: string
  hash :: string
  group :: string
  permissions :: int

text \<open>
  What the provider asks of its surroundings: \<open>self._io.file_exists\<close>,
  \<open>self.get_file\<close> (the download from the content store, which may fail) and the
  SHA-1 hex digest that \<open>hash_file\<close> computes with \<open>hashlib\<close>.
\<close>

record file_env =
  file_exists :: "string \<Rightarrow> bool"
  get_file :: "string \<Rightarrow> error + string"
  sha1_hexdigest :: "string \<Rightarrow> string"

definition hash_file :: "file_env \<Rightarrow> string \<Rightarrow> string" where
  "hash_file env c = sha1_hexdigest env c"

definition PosixFileProvider_create_resource :: "file_env \<Rightarrow> file_resource \<Rightarrow> unit action" where
  "PosixFileProvider_create_resource env resource =
     then_action
       (if file_exists env (path resource)
        then raise (Exception (''Cannot create file '' @ path resource
                               @ '', because it already exists.''))
        else skip)
    (bind_action (lift_result (get_file env (hash resource))) (\<lambda>data.
     then_action
       (if hash_file env data \<noteq> hash resource
        then raise (Exception (''File hash was '' @ hash resource @ '' expected ''
                               @ hash_file env data))
        else skip)
    (then_action (io (Put (path resource) data))
    (then_action (io (Chmod (path resource) (str_int (permissions resource))))
    (then_action (io (Chown (path resource) (owner resource) (group resource)))
                 (set_change Created))))))"

definition PosixFileProvider_delete_resource :: "file_env \<Rightarrow> file_resource \<Rightarrow> unit action" where
  "PosixFileProvider_delete_resource env resource =
     (if file_exists env (path resource)
      then then_action (io (Remove (path resource))) (set_change Purged)
      else skip)"

definition PosixFileProvider_update_resource ::
  "file_env \<Rightarrow> 'c dict \<Rightarrow> file_resource \<Rightarrow> unit action" where
  "PosixFileProvider_update_resource env changes resource =
     then_action
       (if \<not> file_exists env (path resource)
        then raise (Exception (''Cannot update file '' @ path resource
                               @ '' because it doesn't exist''))
        else skip)
    (then_action
       (if ''hash'' \<in> dom changes
        then bind_action (lift_result (get_file env (hash resource))) (\<lambda>data.
             then_action
               (if hash_file env data \<noteq> hash resource
                then raise (Exception (''File hash was '' @ hash resource @ '' expected ''
                                       @ hash_file env data))
                else skip)
               (io (Put (path resource) data)))
        else skip)
    (then_action
       (if ''permissions'' \<in> dom changes
        then io (Chmod (path resource) (str_int (permissions resource)))
        else skip)
    (then_action
       (if ''owner'' \<in> dom changes \<or> ''group'' \<in> dom changes
        then io (Chown (path resource) (owner resource) (group resource))
        else skip)
       (set_change Updated))))"

section \<open>Availability of the two service handlers\<close>

text \<open>The host's file system, as far as \<open>file_exists\<close> sees it: the set of
  paths that exist.\<close>

type_synonym filesystem = "string set"

text \<open>\<open>SystemdService\<close> keeps the path it found in \<open>self._systemd_path\<close>,
  \<open>None\<close> after \<open>__init__\<close>.\<close>

record systemd_service =
  systemd_path :: "string option"

definition SystemdService_init :: systemd_service where
  "SystemdService_init = \<lparr>systemd_path = None\<rparr>"

definition SystemdService_available ::
  "filesystem \<Rightarrow> systemd_service \<Rightarrow> bool \<times> systemd_service" where
  "SystemdService_available fs self =
     (let self' =
            (if ''/usr/bin/systemctl'' \<in> fs
             then self\<lparr>systemd_path := Some ''/usr/bin/systemctl''\<rparr>
             else if ''/bin/systemctl'' \<in> fs
             then self\<lparr>systemd_path := Some ''/bin/systemctl''\<rparr>
             else self)
      in (systemd_path self' \<noteq> None, self'))"

definition ServiceService_available :: "filesystem \<Rightarrow> bool" where
  "ServiceService_available fs =
     (''/sbin/chkconfig'' \<in> fs \<and> ''/sbin/service'' \<in> fs
      \<and> \<not> ''/usr/bin/systemctl'' \<in> fs)"

section \<open>\<open>YumPackage\<close>: reading the output of yum\<close>

text \<open>
  White space as \<open>str.strip()\<close> and the pattern \<open>\\s\<close> see it among the
  ASCII characters: tab, line feed, vertical tab, form feed, carriage return, the four
  separators 28 to 31 and the space.
\<close>

definition is_space :: "char \<Rightarrow> bool" where
  "is_space c = (of_char c \<in> {9, 10, 11, 12, 13, 28, 29, 30, 31, 32 :: nat})"

definition newline :: char where
  "newline = CHR 0x0A"

definition strip :: "string \<Rightarrow> string" where
  "strip s = rev (dropWhile is_space (rev (dropWhile is_space s)))"

text \<open>\<open>s.split(sep)\<close> for a separator of one character: never an empty list.\<close>

fun split :: "char \<Rightarrow> string \<Rightarrow> string list" where
  "split sep [] = [[]]"
| "split sep (c # cs) =
     (if c = sep then [] # split sep cs
      else (case split sep cs of
              [] \<Rightarrow> [[c]]
            | w # ws \<Rightarrow> (c # w) # ws))"

definition startswith :: "string \<Rightarrow> string \<Rightarrow> bool" where
  "startswith s p = (take (length p) s = p)"

text \<open>
  \<open>re.search(r"^(.+) :\\s+(.+)", line)\<close>, by the matcher's own backtracking.
  A dot matches any character but a line feed. The first group is tried longest
  first; behind it stand a space and a colon; \<open>\\s+\<close> is tried longest first
  too, and the second group takes what follows up to a line feed.
\<close>

definition dot_plus :: "string \<Rightarrow> string option" where
  "dot_plus s =
     (let g = takeWhile (\<lambda>c. c \<noteq> newline) s
      in if g = [] then None else Some g)"

fun spaces_then_value :: "nat \<Rightarrow> string \<Rightarrow> string option" where
  "spaces_then_value 0 r = None"
| "spaces_then_value (Suc j) r =
     (case dot_plus (drop (Suc j) r) of
        Some g \<Rightarrow> Some g
      | None \<Rightarrow> spaces_then_value j r)"

definition match_value :: "string \<Rightarrow> string option" where
  "match_value r = spaces_then_value (length (takeWhile is_space r)) r"

fun field_search :: "nat \<Rightarrow> string \<Rightarrow> (string \<times> string) option" where
  "field_search 0 line = None"
| "field_search (Suc i) line =
     (if take 2 (drop (Suc i) line) = '' :''
      then (case match_value (drop (Suc i + 2) line) of
              Some v \<Rightarrow> Some (take (Suc i) line, v)
            | None \<Rightarrow> field_search i line)
      else field_search i line)"

definition match_field :: "string \<Rightarrow> (string \<times> string) option" where
  "match_field line = field_search (length (takeWhile (\<lambda>c. c \<noteq> newline) line)) line"

text \<open>
  \<open>re.search(r"([^\\s]+)\\s+([^\\s]+)\\s+([^\\s]+)", line)\<close>: the leftmost match
  begins at the first character that is not white space, and the three groups are the
  first three runs of such characters, if the line has three.
\<close>

definition search_columns :: "string \<Rightarrow> (string \<times> string \<times> string) option" where
  "search_columns line =
     (let s1 = dropWhile is_space line;
          g1 = takeWhile (\<lambda>c. \<not> is_space c) s1;
          s2 = dropWhile is_space (dropWhile (\<lambda>c. \<not> is_space c) s1);
          g2 = takeWhile (\<lambda>c. \<not> is_space c) s2;
          s3 = dropWhile is_space (dropWhile (\<lambda>c. \<not> is_space c) s2);
          g3 = takeWhile (\<lambda>c. \<not> is_space c) s3
      in if g1 \<noteq> [] \<and> g2 \<noteq> [] \<and> g3 \<noteq> [] then Some (g1, g2, g3) else None)"

text \<open>
  The loop of \<open>_parse_fields\<close>, with its variables \<open>props\<close> and
  \<open>old_key\<close>. \<open>props[old_key] += ...\<close> raises \<open>KeyError\<close> while no field
  has been started.
\<close>

fun parse_loop :: "string dict \<Rightarrow> string option \<Rightarrow> string list \<Rightarrow> error + string dict" where
  "parse_loop props old_key [] = Inr props"
| "parse_loop props old_key (line # lines) =
     (if strip line = [] then parse_loop props old_key lines
      else if strip line = ''Available Packages'' then Inr props
      else (case match_field line of
              None \<Rightarrow> parse_loop props old_key lines
            | Some (key0, val) \<Rightarrow>
                (let key = strip key0
                 in if key = []
                    then (case old_key of
                            None \<Rightarrow> Inl KeyError
                          | Some k \<Rightarrow>
                              (case props k of
                                 None \<Rightarrow> Inl KeyError
                               | Some old \<Rightarrow>
                                   parse_loop (props(k \<mapsto> old @ '' '' @ val)) old_key lines))
                    else parse_loop (props(key \<mapsto> val)) (Some key) lines)))"

definition parse_fields :: "string list \<Rightarrow> error + string dict" where
  "parse_fields lines = parse_loop Map.empty None lines"

section \<open>\<open>YumPackage\<close>: \<open>check_resource\<close> and \<open>list_changes\<close>\<close>

record package =
  name :: string
  state :: string

text \<open>The host as the handler sees it: the paths that exist, and \<open>self._io.run\<close>
  giving standard output, standard error and the exit code of a command.\<close>

record yum_host =
  paths :: filesystem
  run :: "string \<Rightarrow> string list \<Rightarrow> string \<times> string \<times> int"

definition run_yum :: "yum_host \<Rightarrow> string list \<Rightarrow> string \<times> string \<times> int" where
  "run_yum host args =
     (if ''/usr/bin/dnf'' \<in> paths host
      then run host ''/usr/bin/dnf'' ([''-d'', ''0'', ''-e'', ''0'', ''-y''] @ args)
      else run host ''/usr/bin/yum'' ([''-d'', ''0'', ''-e'', ''0'', ''-y''] @ args))"

text \<open>\<open>version, release = version_str.split("-")\<close>: exactly two parts, or
  \<open>ValueError\<close>.\<close>

definition unpack_pair :: "string list \<Rightarrow> error + string \<times> string" where
  "unpack_pair parts = (case parts of [a, b] \<Rightarrow> Inr (a, b) | _ \<Rightarrow> Inl ValueError)"

definition check_resource :: "yum_host \<Rightarrow> package \<Rightarrow> error + py_value dict" where
  "check_resource host resource =
     (let yum_output = run_yum host [''info'', name resource];
          lines = split newline (fst yum_output)
      in bind_result (parse_fields (tl lines)) (\<lambda>output.
         if ''Repo'' \<notin> dom output then Inr [''state'' \<mapsto> PyStr ''removed'']
         else
           (let pkg_state = (if output ''Repo'' = Some ''installed''
                                \<or> output ''Repo'' = Some ''@System''
                             then ''installed'' else ''removed'');
                yum_output2 = run_yum host [''check-update'', name resource];
                lines2 = split newline (fst yum_output2)
            in bind_result (getitem output ''Version'') (\<lambda>version.
               bind_result (getitem output ''Release'') (\<lambda>release.
               (let data = [''state'' \<mapsto> PyStr pkg_state, ''version'' \<mapsto> PyStr version,
                            ''release'' \<mapsto> PyStr release, ''update'' \<mapsto> PyNone]
                in (case lines2 of
                      [] \<Rightarrow> Inr data
                    | line0 # rest \<Rightarrow>
                        (case search_columns line0 of
                           None \<Rightarrow> Inr data
                         | Some (g1, version_str, g3) \<Rightarrow>
                             if \<not> startswith line0 ''Security:''
                             then bind_result (unpack_pair (split CHR ''-'' version_str))
                                    (\<lambda>(v, r). Inr (data(''update'' \<mapsto> PyTuple (PyStr v) (PyStr r))))
                             else Inr data))))))))"

definition list_changes :: "yum_host \<Rightarrow> package \<Rightarrow> error + py_value dict" where
  "list_changes host resource =
     bind_result (check_resource host resource) (\<lambda>cur.
     bind_result
       (if state resource = ''removed''
        then bind_result (getitem cur ''state'') (\<lambda>s.
               Inr (if s \<noteq> PyStr ''removed''
                    then [''state'' \<mapsto> PyTuple s (PyStr (state resource))]
                    else Map.empty))
        else if state resource = ''installed'' \<or> state resource = ''latest''
        then bind_result (getitem cur ''state'') (\<lambda>s.
               Inr (if s \<noteq> PyStr ''installed''
                    then [''state'' \<mapsto> PyTuple s (PyStr ''installed'')]
                    else Map.empty))
        else Inr Map.empty) (\<lambda>changes.
     if ''update'' \<in> dom cur \<and> cur ''update'' \<noteq> Some PyNone \<and> state resource = ''latest''
     then bind_result (getitem cur ''version'') (\<lambda>v.
          bind_result (getitem cur ''release'') (\<lambda>r.
          bind_result (getitem cur ''update'') (\<lambda>u.
            Inr (changes(''version'' \<mapsto> PyTuple (PyTuple v r) u)))))
     else Inr changes))"

section \<open>\<open>AgentConfigHandler\<close>\<close>

record agent_config =
  agentname :: string
  uri :: string

text \<open>
  The remote setting holding the agent map, and the cache of the handler context
  (\<open>ctx.set\<close>, \<open>ctx.get\<close>). The dictionary put into the cache is the object the
  later steps change in place, so a change shows in the cache as well.
\<close>

record agent_world =
  setting :: "string dict"
  cache :: "(string dict) dict"

definition get_map :: "agent_world \<Rightarrow> string dict" where
  "get_map w = setting w"

definition set_map :: "string dict \<Rightarrow> agent_world \<Rightarrow> agent_world" where
  "set_map agent_cfg w = w\<lparr>setting := agent_cfg\<rparr>"

definition AgentConfigHandler_read_resource ::
  "agent_world \<Rightarrow> agent_config \<Rightarrow> (error + unit) \<times> agent_world \<times> agent_config" where
  "AgentConfigHandler_read_resource w resource =
     (let agent_cfg = get_map w;
          w' = w\<lparr>cache := (cache w)(''map'' \<mapsto> agent_cfg)\<rparr>
      in case agent_cfg (agentname resource) of
           None \<Rightarrow> (Inl ResourcePurged, w', resource)
         | Some u \<Rightarrow> (Inr (), w', resource\<lparr>uri := u\<rparr>))"

definition AgentConfigHandler_create_resource ::
  "agent_world \<Rightarrow> agent_config \<Rightarrow> (error + unit) \<times> agent_world" where
  "AgentConfigHandler_create_resource w resource =
     (case getitem (cache w) ''map'' of
        Inl e \<Rightarrow> (Inl e, w)
      | Inr agent_cfg \<Rightarrow>
          (let agent_cfg' = agent_cfg(agentname resource \<mapsto> uri resource)
           in (Inr (), set_map agent_cfg' (w\<lparr>cache := (cache w)(''map'' \<mapsto> agent_cfg')\<rparr>))))"

definition AgentConfigHandler_delete_resource ::
  "agent_world \<Rightarrow> agent_config \<Rightarrow> (error + unit) \<times> agent_world" where
  "AgentConfigHandler_delete_resource w resource =
     (case getitem (cache w) ''map'' of
        Inl e \<Rightarrow> (Inl e, w)
      | Inr agent_cfg \<Rightarrow>
          (if agentname resource \<notin> dom agent_cfg then (Inl KeyError, w)
           else (let agent_cfg' = agent_cfg(agentname resource := None)
                 in (Inr (), set_map agent_cfg' (w\<lparr>cache := (cache w)(''map'' \<mapsto> agent_cfg')\<rparr>)))))"

definition AgentConfigHandler_update_resource ::
  "agent_world \<Rightarrow> 'c dict \<Rightarrow> agent_config \<Rightarrow> (error + unit) \<times> agent_world" where
  "AgentConfigHandler_update_resource w changes resource =
     (case getitem (cache w) ''map'' of
        Inl e \<Rightarrow> (Inl e, w)
      | Inr agent_cfg \<Rightarrow>
          (let agent_cfg' = agent_cfg(agentname resource \<mapsto> uri resource)
           in (Inr (), set_map agent_cfg' (w\<lparr>cache := (cache w)(''map'' \<mapsto> agent_cfg')\<rparr>))))"

section \<open>The field parser as the specification words it\<close>

text \<open>
  The specification describes \<open>_parse_fields\<close> by three rules: a line with a
  non-empty key starts a new field; a line with an empty key is a continuation, whose
  value is appended, after one space, to the value of the field started last; parsing
  stops at the line that introduces the available packages. The definitions below say
  this on lists, to be compared with the loop.

  \<open>field_line\<close> gives the key and the value a line carries, if it carries any;
  \<open>parsed_lines\<close> are those of the lines before the marker; \<open>add_field\<close> applies
  the first two rules to the fields found so far, the one started last in front.
\<close>

definition is_marker :: "string \<Rightarrow> bool" where
  "is_marker line = (strip line = ''Available Packages'')"

definition field_line :: "string \<Rightarrow> (string \<times> string) option" where
  "field_line line =
     (if strip line = [] then None
      else (case match_field line of
              None \<Rightarrow> None
            | Some (key0, val) \<Rightarrow> Some (strip key0, val)))"

fun add_field :: "(string \<times> string) list \<Rightarrow> string \<times> string \<Rightarrow> (string \<times> string) list" where
  "add_field fs (k, v) =
     (if k \<noteq> [] then (k, v) # fs
      else (case fs of
              [] \<Rightarrow> []
            | (k0, v0) # rest \<Rightarrow> (k0, v0 @ '' '' @ v) # rest))"

definition parsed_lines :: "string list \<Rightarrow> (string \<times> string) list" where
  "parsed_lines lines = List.map_filter field_line (takeWhile (\<lambda>l. \<not> is_marker l) lines)"

definition fields_as_specified :: "string list \<Rightarrow> (string \<times> string) list" where
  "fields_as_specified lines = foldl add_field [] (parsed_lines lines)"

text \<open>A continuation line before any field has been started: the specification does
  not say what it is appended to.\<close>

definition starts_with_continuation :: "string list \<Rightarrow> bool" where
  "starts_with_continuation lines =
     (case parsed_lines lines of [] \<Rightarrow> False | (k, v) # evs \<Rightarrow> k = [])"

definition last_key :: "(string \<times> string) list \<Rightarrow> string option" where
  "last_key fs = (case fs of [] \<Rightarrow> None | (k, v) # rest \<Rightarrow> Some k)"

section \<open>The assembly of a file as the specification words it\<close>

text \<open>
  The specification has the ordered prefix fragments joined with the separator,
  followed by one separator, put directly in front of the payload; and the payload
  followed by one separator and the joined suffix fragments.
\<close>

definition specified_assembly :: "file_obj \<Rightarrow> string \<Rightarrow> string" where
  "specified_assembly obj c0 =
     (let sep = content_seperator obj;
          pre = map snd (sort_key fst (map sort_tuple (prefix_content obj)));
          suf = map snd (sort_key fst (map sort_tuple (suffix_content obj)))
      in (if pre = [] then [] else join sep pre @ sep) @ c0
         @ (if suf = [] then [] else sep @ join sep suf))"

section \<open>A package state that satisfies the desired state\<close>

text \<open>
  The snapshot of \<open>check_resource\<close> matches the desired state of a package when the
  package is to be removed and is, when it is to be installed and is, or when it is to
  be at its latest version, is installed, and no update is available.
\<close>

definition matches_desired :: "package \<Rightarrow> py_value dict \<Rightarrow> bool" where
  "matches_desired resource cur =
     (state resource = ''removed'' \<and> cur ''state'' = Some (PyStr ''removed'')
      \<or> state resource = ''installed'' \<and> cur ''state'' = Some (PyStr ''installed'')
      \<or> state resource = ''latest'' \<and> cur ''state'' = Some (PyStr ''installed'')
        \<and> (cur ''update'' = None \<or> cur ''update'' = Some PyNone))"

section \<open>A sample host for the package handler\<close>

text \<open>
  A host with \<open>yum\<close> on which the package \<open>vim\<close> is installed: the info query
  prints the block below, and the check-update query prints the text given.
\<close>

definition yum_args :: "string list \<Rightarrow> string list" where
  "yum_args args = [''-d'', ''0'', ''-e'', ''0'', ''-y''] @ args"

definition vim_info :: string where
  "vim_info = ''Installed Packages'' @ [newline] @ ''Name        : vim'' @ [newline]
     @ ''Version     : 8.0'' @ [newline] @ ''Release     : 1.el7'' @ [newline]
     @ ''Repo        : installed'' @ [newline] @ ''Summary     : editor'' @ [newline]
     @ ''            : improved'' @ [newline]"

definition example_host :: "string \<Rightarrow> yum_host" where
  "example_host check_update =
     \<lparr>paths = {''/usr/bin/rpm'', ''/usr/bin/yum''},
      run = (\<lambda>cmd args. if args = yum_args [''info'', ''vim''] then (vim_info, [], 0)
                         else (check_update, [], if check_update = [] then 0 else 100))\<rparr>"


section \<open>Properties of the handlers\<close>

lemmas action_defs =
  then_action_def bind_action_def skip_def raise_def io_def set_change_def lift_result_def

subsection \<open>The service handlers' availability\<close>

text \<open>
  Claim C4 says that at most one of the two service handlers reports itself available
  on a host, and that a \<open>systemctl\<close> binary at either \<open>/usr/bin/systemctl\<close> or
  \<open>/bin/systemctl\<close> rules the legacy handler out. On a host that has
  \<open>/bin/systemctl\<close>, \<open>/sbin/chkconfig\<close> and \<open>/sbin/service\<close> but no
  \<open>/usr/bin/systemctl\<close>, a fresh systemd handler and the legacy handler are both
  available: the legacy probe looks for \<open>/usr/bin/systemctl\<close> only.
\<close>

theorem both_service_handlers_available:
  "fst (SystemdService_available {''/bin/systemctl'', ''/sbin/chkconfig'', ''/sbin/service''}
          SystemdService_init)
   \<and> ServiceService_available {''/bin/systemctl'', ''/sbin/chkconfig'', ''/sbin/service''}"
  by (simp add: SystemdService_available_def SystemdService_init_def ServiceService_available_def)

text \<open>
  With \<open>/usr/bin/systemctl\<close> present the two probes do exclude each other: the
  systemd handler is available and the legacy handler is not.
\<close>

lemma usr_bin_systemctl_excludes_legacy:
  "''/usr/bin/systemctl'' \<in> fs \<Longrightarrow>
     fst (SystemdService_available fs self) \<and> \<not> ServiceService_available fs"
  by (simp add: SystemdService_available_def ServiceService_available_def)

subsection \<open>Creating a file\<close>

text \<open>
  Claim C5: \<open>create_resource\<close> of the file provider fails when the path exists;
  otherwise the bytes fetched for the desired hash are hashed again, and when the
  digest differs from the expected hash the method raises and no call that changes
  the host has been made; when it agrees, the file is written, then its mode is set,
  then its owner and group, in this order, and the outcome is set to created.
\<close>

theorem create_resource_outcomes:
  "(file_exists env (path r) \<longrightarrow>
      PosixFileProvider_create_resource env r s =
        (Inl (Exception (''Cannot create file '' @ path r @ '', because it already exists.'')), s))
   \<and> (\<not> file_exists env (path r) \<and> get_file env (hash r) = Inr data
        \<and> hash_file env data \<noteq> hash r \<longrightarrow>
      PosixFileProvider_create_resource env r s =
        (Inl (Exception (''File hash was '' @ hash r @ '' expected '' @ hash_file env data)), s))
   \<and> (\<not> file_exists env (path r) \<and> get_file env (hash r) = Inr data
        \<and> hash_file env data = hash r \<longrightarrow>
      PosixFileProvider_create_resource env r s =
        (Inr (), s\<lparr>calls := calls s @ [Put (path r) data,
                                        Chmod (path r) (str_int (permissions r)),
                                        Chown (path r) (owner r) (group r)],
                   ctx_change := Created\<rparr>))"
  by (simp add: PosixFileProvider_create_resource_def action_defs)

theorem create_resource_outcomes_witness:
  "PosixFileProvider_create_resource
      \<lparr>file_exists = (\<lambda>p. p = ''/tmp/a''), get_file = (\<lambda>h. Inr ''abc''), sha1_hexdigest = (\<lambda>c. ''H'')\<rparr>
      \<lparr>path = ''/tmp/a'', owner = ''root'', hash = ''H'', group = ''root'', permissions = 644\<rparr> start
    = (Inl (Exception ''Cannot create file /tmp/a, because it already exists.''), start)
   \<and> PosixFileProvider_create_resource
      \<lparr>file_exists = (\<lambda>p. False), get_file = (\<lambda>h. Inr ''abc''), sha1_hexdigest = (\<lambda>c. ''G'')\<rparr>
      \<lparr>path = ''/tmp/a'', owner = ''root'', hash = ''H'', group = ''root'', permissions = 644\<rparr> start
    = (Inl (Exception ''File hash was H expected G''), start)
   \<and> PosixFileProvider_create_resource
      \<lparr>file_exists = (\<lambda>p. False), get_file = (\<lambda>h. Inr ''abc''), sha1_hexdigest = (\<lambda>c. ''H'')\<rparr>
      \<lparr>path = ''/tmp/a'', owner = ''root'', hash = ''H'', group = ''root'', permissions = 644\<rparr> start
    = (Inr (), \<lparr>calls = [Put ''/tmp/a'' ''abc'', Chmod ''/tmp/a'' (str_int 644),
                          Chown ''/tmp/a'' ''root'' ''root''],
                 ctx_change = Created\<rparr>)"
  using create_resource_outcomes
          [where env="\<lparr>file_exists = (\<lambda>p. p = ''/tmp/a''), get_file = (\<lambda>h. Inr ''abc''), sha1_hexdigest = (\<lambda>c. ''H'')\<rparr>"
             and r="\<lparr>path = ''/tmp/a'', owner = ''root'', hash = ''H'', group = ''root'', permissions = 644\<rparr>"
             and data="''abc''" and s=start]
        create_resource_outcomes
          [where env="\<lparr>file_exists = (\<lambda>p. False), get_file = (\<lambda>h. Inr ''abc''), sha1_hexdigest = (\<lambda>c. ''G'')\<rparr>"
             and r="\<lparr>path = ''/tmp/a'', owner = ''root'', hash = ''H'', group = ''root'', permissions = 644\<rparr>"
             and data="''abc''" and s=start]
        create_resource_outcomes
          [where env="\<lparr>file_exists = (\<lambda>p. False), get_file = (\<lambda>h. Inr ''abc''), sha1_hexdigest = (\<lambda>c. ''H'')\<rparr>"
             and r="\<lparr>path = ''/tmp/a'', owner = ''root'', hash = ''H'', group = ''root'', permissions = 644\<rparr>"
             and data="''abc''" and s=start]
  by (simp add: hash_file_def start_def)

subsection \<open>Updating a file\<close>

text \<open>
  Claim C8: \<open>update_resource\<close> of the file provider fails when the path does not
  exist. Otherwise the content is written again exactly when \<open>hash\<close> is a key of
  the change-set, after the same check of the fetched bytes as in creation (a digest
  that differs makes the method raise before any call that changes the host); the mode
  is set exactly when \<open>permissions\<close> is a key, owner and group exactly when
  \<open>owner\<close> or \<open>group\<close> is a key; no other call that changes the host is made.
\<close>

theorem update_resource_outcomes:
  "(\<not> file_exists env (path r) \<longrightarrow>
      PosixFileProvider_update_resource env changes r s =
        (Inl (Exception (''Cannot update file '' @ path r @ '' because it doesn't exist'')), s))
   \<and> (file_exists env (path r) \<and> ''hash'' \<in> dom changes \<and> get_file env (hash r) = Inr data
        \<and> hash_file env data \<noteq> hash r \<longrightarrow>
      PosixFileProvider_update_resource env changes r s =
        (Inl (Exception (''File hash was '' @ hash r @ '' expected '' @ hash_file env data)), s))
   \<and> (file_exists env (path r)
        \<and> (''hash'' \<in> dom changes \<longrightarrow> get_file env (hash r) = Inr data \<and> hash_file env data = hash r) \<longrightarrow>
      PosixFileProvider_update_resource env changes r s =
        (Inr (), s\<lparr>calls := calls s
                     @ (if ''hash'' \<in> dom changes then [Put (path r) data] else [])
                     @ (if ''permissions'' \<in> dom changes
                        then [Chmod (path r) (str_int (permissions r))] else [])
                     @ (if ''owner'' \<in> dom changes \<or> ''group'' \<in> dom changes
                        then [Chown (path r) (owner r) (group r)] else []),
                   ctx_change := Updated\<rparr>))"
  by (auto simp add: PosixFileProvider_update_resource_def action_defs)

theorem update_resource_outcomes_witness:
  "PosixFileProvider_update_resource
      \<lparr>file_exists = (\<lambda>p. False), get_file = (\<lambda>h. Inr ''abc''), sha1_hexdigest = (\<lambda>c. ''H'')\<rparr>
      [''hash'' \<mapsto> ()]
      \<lparr>path = ''/tmp/a'', owner = ''root'', hash = ''H'', group = ''root'', permissions = 644\<rparr> start
    = (Inl (Exception ''Cannot update file /tmp/a because it doesn't exist''), start)
   \<and> PosixFileProvider_update_resource
      \<lparr>file_exists = (\<lambda>p. True), get_file = (\<lambda>h. Inr ''abc''), sha1_hexdigest = (\<lambda>c. ''G'')\<rparr>
      [''hash'' \<mapsto> (), ''permissions'' \<mapsto> ()]
      \<lparr>path = ''/tmp/a'', owner = ''root'', hash = ''H'', group = ''root'', permissions = 644\<rparr> start
    = (Inl (Exception ''File hash was H expected G''), start)
   \<and> PosixFileProvider_update_resource
      \<lparr>file_exists = (\<lambda>p. True), get_file = (\<lambda>h. Inr ''abc''), sha1_hexdigest = (\<lambda>c. ''H'')\<rparr>
      [''hash'' \<mapsto> (), ''group'' \<mapsto> ()]
      \<lparr>path = ''/tmp/a'', owner = ''root'', hash = ''H'', group = ''root'', permissions = 644\<rparr> start
    = (Inr (), \<lparr>calls = [Put ''/tmp/a'' ''abc'', Chown ''/tmp/a'' ''root'' ''root''],
                 ctx_change = Updated\<rparr>)
   \<and> PosixFileProvider_update_resource
      \<lparr>file_exists = (\<lambda>p. True), get_file = (\<lambda>h. Inl IOError), sha1_hexdigest = (\<lambda>c. ''H'')\<rparr>
      [''permissions'' \<mapsto> ()]
      \<lparr>path = ''/tmp/a'', owner = ''root'', hash = ''H'', group = ''root'', permissions = 644\<rparr> start
    = (Inr (), \<lparr>calls = [Chmod ''/tmp/a'' (str_int 644)], ctx_change = Updated\<rparr>)"
  using update_resource_outcomes
          [where env="\<lparr>file_exists = (\<lambda>p. False), get_file = (\<lambda>h. Inr ''abc''), sha1_hexdigest = (\<lambda>c. ''H'')\<rparr>"
             and r="\<lparr>path = ''/tmp/a'', owner = ''root'', hash = ''H'', group = ''root'', permissions = 644\<rparr>"
             and changes="[''hash'' \<mapsto> ()]" and s=start and data="''abc''"]
        update_resource_outcomes
          [where env="\<lparr>file_exists = (\<lambda>p. True), get_file = (\<lambda>h. Inr ''abc''), sha1_hexdigest = (\<lambda>c. ''G'')\<rparr>"
             and r="\<lparr>path = ''/tmp/a'', owner = ''root'', hash = ''H'', group = ''root'', permissions = 644\<rparr>"
             and changes="[''hash'' \<mapsto> (), ''permissions'' \<mapsto> ()]" and s=start and data="''abc''"]
        update_resource_outcomes
          [where env="\<lparr>file_exists = (\<lambda>p. True), get_file = (\<lambda>h. Inr ''abc''), sha1_hexdigest = (\<lambda>c. ''H'')\<rparr>"
             and r="\<lparr>path = ''/tmp/a'', owner = ''root'', hash = ''H'', group = ''root'', permissions = 644\<rparr>"
             and changes="[''hash'' \<mapsto> (), ''group'' \<mapsto> ()]" and s=start and data="''abc''"]
        update_resource_outcomes
          [where env="\<lparr>file_exists = (\<lambda>p. True), get_file = (\<lambda>h. Inl IOError), sha1_hexdigest = (\<lambda>c. ''H'')\<rparr>"
             and r="\<lparr>path = ''/tmp/a'', owner = ''root'', hash = ''H'', group = ''root'', permissions = 644\<rparr>"
             and changes="[''permissions'' \<mapsto> ()]" and s=start and data="''abc''"]
  by (simp add: hash_file_def start_def)

subsection \<open>The agent map\<close>

text \<open>
  Claim C9: let \<open>M\<close> be the agent map fetched by \<open>read_resource\<close> (whether the
  agent was found in it or not). For a resource with agent name \<open>n\<close>, both
  \<open>create_resource\<close> and \<open>update_resource\<close> write back \<open>M\<close> with \<open>n\<close>
  mapped to the resource's URI, whatever the remote setting holds by then; every
  entry of \<open>M\<close> under another key is written back as it was.
\<close>

theorem agent_map_write_back:
  assumes "AgentConfigHandler_read_resource w r0 = (out, w1, r1)"
  shows "AgentConfigHandler_create_resource (w1\<lparr>setting := S\<rparr>) r =
           (Inr (), \<lparr>setting = (setting w)(agentname r \<mapsto> uri r),
                     cache = (cache w)(''map'' \<mapsto> (setting w)(agentname r \<mapsto> uri r))\<rparr>)
       \<and> AgentConfigHandler_update_resource (w1\<lparr>setting := S\<rparr>) changes r =
           (Inr (), \<lparr>setting = (setting w)(agentname r \<mapsto> uri r),
                     cache = (cache w)(''map'' \<mapsto> (setting w)(agentname r \<mapsto> uri r))\<rparr>)
       \<and> (\<forall>k. k \<noteq> agentname r \<longrightarrow>
             setting (snd (AgentConfigHandler_create_resource (w1\<lparr>setting := S\<rparr>) r)) k = setting w k
           \<and> setting (snd (AgentConfigHandler_update_resource (w1\<lparr>setting := S\<rparr>) changes r)) k = setting w k)"
  using assms
  by (auto simp add: AgentConfigHandler_read_resource_def AgentConfigHandler_create_resource_def
       AgentConfigHandler_update_resource_def get_map_def set_map_def getitem_def Let_def
       split: option.splits)

theorem agent_map_write_back_witness:
  "AgentConfigHandler_read_resource
      \<lparr>setting = [''worker1'' \<mapsto> ''uri1'', ''worker2'' \<mapsto> ''uri3''], cache = Map.empty\<rparr>
      \<lparr>agentname = ''worker1'', uri = ''uri2''\<rparr>
    = (Inr (),
       \<lparr>setting = [''worker1'' \<mapsto> ''uri1'', ''worker2'' \<mapsto> ''uri3''],
        cache = [''map'' \<mapsto> [''worker1'' \<mapsto> ''uri1'', ''worker2'' \<mapsto> ''uri3'']]\<rparr>,
       \<lparr>agentname = ''worker1'', uri = ''uri1''\<rparr>)
   \<and> setting (snd (AgentConfigHandler_update_resource
        \<lparr>setting = [''worker1'' \<mapsto> ''uri1'', ''worker2'' \<mapsto> ''uri3''],
         cache = [''map'' \<mapsto> [''worker1'' \<mapsto> ''uri1'', ''worker2'' \<mapsto> ''uri3'']]\<rparr>
        [''uri'' \<mapsto> ()] \<lparr>agentname = ''worker1'', uri = ''uri2''\<rparr>)) ''worker2'' = Some ''uri3''
   \<and> setting (snd (AgentConfigHandler_update_resource
        \<lparr>setting = [''worker1'' \<mapsto> ''uri1'', ''worker2'' \<mapsto> ''uri3''],
         cache = [''map'' \<mapsto> [''worker1'' \<mapsto> ''uri1'', ''worker2'' \<mapsto> ''uri3'']]\<rparr>
        [''uri'' \<mapsto> ()] \<lparr>agentname = ''worker1'', uri = ''uri2''\<rparr>)) ''worker1'' = Some ''uri2''"
proof -
  let ?M = "[''worker1'' \<mapsto> ''uri1'', ''worker2'' \<mapsto> ''uri3'']"
  let ?w = "\<lparr>setting = ?M, cache = Map.empty\<rparr>"
  let ?w1 = "\<lparr>setting = ?M, cache = [''map'' \<mapsto> ?M]\<rparr>"
  have rd: "AgentConfigHandler_read_resource ?w \<lparr>agentname = ''worker1'', uri = ''uri2''\<rparr>
            = (Inr (), ?w1, \<lparr>agentname = ''worker1'', uri = ''uri1''\<rparr>)"
    by (simp add: AgentConfigHandler_read_resource_def get_map_def Let_def)
  from agent_map_write_back [OF rd, where S="?M" and r="\<lparr>agentname = ''worker1'', uri = ''uri2''\<rparr>"
         and changes="[''uri'' \<mapsto> ()]"]
  show ?thesis using rd by simp
qed

subsection \<open>The autostart field\<close>

text \<open>
  Claim C10: \<open>get_autostart\<close> raises \<open>IgnoreResourceException\<close> when reading the
  attribute raises (as it does when the attribute is unset) and when its value is
  false; only a true value is returned.
\<close>

theorem get_autostart_ignores_unless_truthy:
  "(\<forall>e. autostart obj = Inl e \<longrightarrow> get_autostart obj = Inl IgnoreResourceException)
   \<and> (\<forall>v. autostart obj = Inr v \<and> \<not> truthy v \<longrightarrow> get_autostart obj = Inl IgnoreResourceException)
   \<and> (\<forall>v. autostart obj = Inr v \<and> truthy v \<longrightarrow> get_autostart obj = Inr v)"
  by (simp add: get_autostart_def)

theorem get_autostart_ignores_unless_truthy_witness:
  "get_autostart \<lparr>autostart = Inl KeyError\<rparr> = Inl IgnoreResourceException
   \<and> get_autostart \<lparr>autostart = Inr (PyBool False)\<rparr> = Inl IgnoreResourceException
   \<and> get_autostart \<lparr>autostart = Inr PyNone\<rparr> = Inl IgnoreResourceException
   \<and> get_autostart \<lparr>autostart = Inr (PyBool True)\<rparr> = Inr (PyBool True)"
  using get_autostart_ignores_unless_truthy [of "\<lparr>autostart = Inl KeyError\<rparr>"]
        get_autostart_ignores_unless_truthy [of "\<lparr>autostart = Inr (PyBool False)\<rparr>"]
        get_autostart_ignores_unless_truthy [of "\<lparr>autostart = Inr PyNone\<rparr>"]
        get_autostart_ignores_unless_truthy [of "\<lparr>autostart = Inr (PyBool True)\<rparr>"]
  by simp


subsection \<open>The field parser\<close>

lemma parsed_lines_Nil: "parsed_lines [] = []"
  by (simp add: parsed_lines_def List.map_filter_simps)

lemma parsed_lines_Cons:
  "parsed_lines (l # ls) =
     (if is_marker l then []
      else (case field_line l of None \<Rightarrow> parsed_lines ls | Some e \<Rightarrow> e # parsed_lines ls))"
  by (simp add: parsed_lines_def List.map_filter_simps split: option.splits)

text \<open>
  The loop, started with the fields \<open>fs\<close> found so far, ends with the fields the
  specification gives for the remaining lines.
\<close>

lemma parse_loop_fields:
  "parse_loop (map_of fs) (last_key fs) lines =
     (if fs = [] \<and> starts_with_continuation lines then Inl KeyError
      else Inr (map_of (foldl add_field fs (parsed_lines lines))))"
proof (induction lines arbitrary: fs)
  case Nil
  then show ?case
    by (simp add: parsed_lines_Nil starts_with_continuation_def)
next
  case (Cons l ls)
  show ?case
  proof (cases "strip l = []")
    case True
    then have "\<not> is_marker l" "field_line l = None"
      by (simp_all add: is_marker_def field_line_def)
    then show ?thesis
      using True Cons.IH [of fs]
      by (simp add: parsed_lines_Cons starts_with_continuation_def)
  next
    case nonblank: False
    show ?thesis
    proof (cases "is_marker l")
      case True
      then show ?thesis
        using nonblank
        by (simp add: parsed_lines_Cons starts_with_continuation_def is_marker_def)
    next
      case nomark: False
      show ?thesis
      proof (cases "match_field l")
        case None
        then have "field_line l = None"
          by (simp add: field_line_def)
        then show ?thesis
          using nonblank nomark None Cons.IH [of fs]
          by (simp add: parsed_lines_Cons starts_with_continuation_def is_marker_def)
      next
        case (Some kv)
        obtain key0 val where kv: "kv = (key0, val)" by (cases kv)
        have fl: "field_line l = Some (strip key0, val)"
          using nonblank Some kv by (simp add: field_line_def)
        show ?thesis
        proof (cases "strip key0 = []")
          case False
          have IH: "parse_loop ((map_of fs)(strip key0 \<mapsto> val)) (Some (strip key0)) ls =
                      Inr (map_of (foldl add_field ((strip key0, val) # fs) (parsed_lines ls)))"
            using Cons.IH [of "(strip key0, val) # fs"] unfolding last_key_def
            by (simp only: map_of.simps fst_conv snd_conv list.case prod.case list.distinct
                  simp_thms if_False)
          have step: "parse_loop (map_of fs) (last_key fs) (l # ls) =
                        parse_loop ((map_of fs)(strip key0 \<mapsto> val)) (Some (strip key0)) ls"
            using nonblank nomark Some kv False by (simp add: is_marker_def Let_def)
          have evs: "parsed_lines (l # ls) = (strip key0, val) # parsed_lines ls"
            using nomark fl by (simp add: parsed_lines_Cons)
          show ?thesis
            unfolding step IH evs using False
            by (simp add: starts_with_continuation_def evs)
        next
          case cont: True
          show ?thesis
          proof (cases fs)
            case Nil
            then show ?thesis
              using nonblank nomark Some kv fl cont
              by (simp add: parsed_lines_Cons starts_with_continuation_def is_marker_def last_key_def
                    Let_def)
          next
            case (Cons f rest)
            obtain k0 v0 where f: "f = (k0, v0)" by (cases f)
            have IH: "parse_loop ((map_of fs)(k0 \<mapsto> v0 @ '' '' @ val)) (Some k0) ls =
                        Inr (map_of (foldl add_field ((k0, v0 @ '' '' @ val) # rest) (parsed_lines ls)))"
              using Cons.IH [of "(k0, v0 @ '' '' @ val) # rest"] unfolding last_key_def Cons f
              by (simp only: map_of.simps fst_conv snd_conv list.case prod.case list.distinct
                    simp_thms if_False fun_upd_upd)
            have look: "last_key fs = Some k0" "map_of fs k0 = Some v0"
              using Cons f by (simp_all add: last_key_def)
            have step: "parse_loop (map_of fs) (last_key fs) (l # ls) =
                          parse_loop ((map_of fs)(k0 \<mapsto> v0 @ '' '' @ val)) (Some k0) ls"
              using nonblank nomark Some kv cont look by (simp add: is_marker_def Let_def)
            have evs: "parsed_lines (l # ls) = ([], val) # parsed_lines ls"
              using nomark fl cont by (simp add: parsed_lines_Cons)
            show ?thesis
              unfolding step IH evs using Cons f
              by simp
          qed
        qed
      qed
    qed
  qed
qed

lemma parse_fields_Inr:
  "\<not> starts_with_continuation lines \<Longrightarrow>
     parse_fields lines = Inr (map_of (fields_as_specified lines))"
  using parse_loop_fields [of "[]" lines]
  by (simp add: parse_fields_def fields_as_specified_def last_key_def)






subsection \<open>The check step of the package handler\<close>

lemma split_not_Nil: "split c s \<noteq> []"
  by (induction s) (auto split: list.splits)

lemma split_single: "split c s = [a] \<Longrightarrow> s = a \<and> c \<notin> set a"
proof (induction s arbitrary: a)
  case Nil
  then show ?case by simp
next
  case (Cons x xs)
  then show ?case
    by (auto simp add: split_not_Nil split: if_splits list.splits)
qed

lemma split_pair: "split c s = [a, b] \<Longrightarrow> s = a @ c # b \<and> c \<notin> set a \<and> c \<notin> set b"
proof (induction s arbitrary: a)
  case Nil
  then show ?case by simp
next
  case (Cons x xs)
  show ?case
  proof (cases "x = c")
    case True
    with Cons.prems have "a = []" "split c xs = [b]" by simp_all
    with True split_single [of c xs b] show ?thesis by simp
  next
    case False
    with Cons.prems obtain w where "split c xs = [w, b]" "a = x # w"
      by (auto split: list.splits)
    with False Cons.IH [of w] show ?thesis by simp
  qed
qed

lemma vim_info_lines:
  "fields_as_specified (tl (split newline vim_info)) =
     [(''Summary'', ''editor improved''), (''Repo'', ''installed''), (''Release'', ''1.el7''),
      (''Version'', ''8.0''), (''Name'', ''vim'')]"
  by code_simp

lemma vim_info_no_continuation: "\<not> starts_with_continuation (tl (split newline vim_info))"
  by code_simp

lemma vim_info_fields:
  "parse_fields (tl (split newline vim_info)) =
     Inr (map_of [(''Summary'', ''editor improved''), (''Repo'', ''installed''),
                  (''Release'', ''1.el7''), (''Version'', ''8.0''), (''Name'', ''vim'')])"
  by (simp only: parse_fields_Inr [OF vim_info_no_continuation] vim_info_lines)

lemma example_host_info:
  "run_yum (example_host cu) [''info'', ''vim''] = (vim_info, [], 0)"
  by (simp add: run_yum_def example_host_def yum_args_def)

lemma example_host_check_update:
  "fst (run_yum (example_host cu) [''check-update'', ''vim'']) = cu"
  by (simp add: run_yum_def example_host_def yum_args_def)

lemma columns_one_dash:
  "search_columns ''vim.x86_64   2:8.1-2.el7   updates'' = Some (''vim.x86_64'', ''2:8.1-2.el7'', ''updates'')"
  by code_simp

lemma columns_two_dashes:
  "search_columns ''vim.x86_64   2:8.1-2-3   updates'' = Some (''vim.x86_64'', ''2:8.1-2-3'', ''updates'')"
  by code_simp

lemma columns_empty: "search_columns [] = None"
  by code_simp

lemma split_lines_one: "split newline ''vim.x86_64   2:8.1-2.el7   updates'' = [''vim.x86_64   2:8.1-2.el7   updates'']"
  by code_simp

lemma split_lines_two: "split newline ''vim.x86_64   2:8.1-2-3   updates'' = [''vim.x86_64   2:8.1-2-3   updates'']"
  by code_simp

lemma split_dash_one: "split CHR ''-'' ''2:8.1-2.el7'' = [''2:8.1'', ''2.el7'']"
  by code_simp

lemma split_dash_two: "split CHR ''-'' ''2:8.1-2-3'' = [''2:8.1'', ''2'', ''3'']"
  by code_simp

text \<open>
  Claim C6 has the version column split at its first dash whenever the first line of
  the check-update output is no security banner and has three columns. With the
  version column \<open>2:8.1-2-3\<close> the check step does not return the pair
  \<open>(2:8.1, 2-3)\<close>: splitting at every dash gives three parts, and unpacking them
  into two names raises \<open>ValueError\<close>.
\<close>

theorem check_resource_two_dashes_raises:
  "search_columns ''vim.x86_64   2:8.1-2-3   updates'' = Some (''vim.x86_64'', ''2:8.1-2-3'', ''updates'')
   \<and> \<not> startswith ''vim.x86_64   2:8.1-2-3   updates'' ''Security:''
   \<and> check_resource (example_host ''vim.x86_64   2:8.1-2-3   updates'')
        \<lparr>name = ''vim'', state = ''latest''\<rparr> = Inl ValueError"
  by (simp add: check_resource_def example_host_info example_host_check_update vim_info_fields
        columns_two_dashes split_lines_two split_dash_two bind_result_def getitem_def
        unpack_pair_def startswith_def Let_def del: split.simps)

text \<open>
  Claim C6, amended: when the info output carries the fields \<open>Repo\<close>,
  \<open>Version\<close> and \<open>Release\<close>, the first line of the check-update output does not
  start with \<open>Security:\<close> and has three columns separated by white space, and the
  version column contains exactly one dash, then the check step splits the version
  column at that dash into version and release, and this pair is the \<open>update\<close>
  entry of the snapshot.
\<close>

theorem check_resource_update_field:
  assumes info: "parse_fields (tl (split newline (fst (run_yum host [''info'', name r])))) = Inr output"
    and repo: "output ''Repo'' = Some repo"
    and ver: "output ''Version'' = Some version"
    and rel: "output ''Release'' = Some release"
    and line: "split newline (fst (run_yum host [''check-update'', name r])) = line0 # rest"
    and cols: "search_columns line0 = Some (g1, version_str, g3)"
    and nosec: "\<not> startswith line0 ''Security:''"
    and dash: "split CHR ''-'' version_str = [v, rl]"
  shows "check_resource host r =
           Inr [''state'' \<mapsto> PyStr (if repo = ''installed'' \<or> repo = ''@System''
                                      then ''installed'' else ''removed''),
                ''version'' \<mapsto> PyStr version, ''release'' \<mapsto> PyStr release,
                ''update'' \<mapsto> PyTuple (PyStr v) (PyStr rl)]
         \<and> version_str = v @ ''-'' @ rl \<and> CHR ''-'' \<notin> set v \<and> CHR ''-'' \<notin> set rl"
proof -
  have "''Repo'' \<in> dom output" using repo by auto
  then have "check_resource host r =
           Inr [''state'' \<mapsto> PyStr (if repo = ''installed'' \<or> repo = ''@System''
                                      then ''installed'' else ''removed''),
                ''version'' \<mapsto> PyStr version, ''release'' \<mapsto> PyStr release,
                ''update'' \<mapsto> PyTuple (PyStr v) (PyStr rl)]"
    using info repo ver rel line cols nosec dash
    by (simp add: check_resource_def bind_result_def getitem_def unpack_pair_def Let_def)
  moreover have "version_str = v @ ''-'' @ rl \<and> CHR ''-'' \<notin> set v \<and> CHR ''-'' \<notin> set rl"
    using split_pair [OF dash] by simp
  ultimately show ?thesis by simp
qed

theorem check_resource_update_field_witness:
  "check_resource (example_host ''vim.x86_64   2:8.1-2.el7   updates'')
        \<lparr>name = ''vim'', state = ''latest''\<rparr> =
     Inr [''state'' \<mapsto> PyStr ''installed'', ''version'' \<mapsto> PyStr ''8.0'',
          ''release'' \<mapsto> PyStr ''1.el7'',
          ''update'' \<mapsto> PyTuple (PyStr ''2:8.1'') (PyStr ''2.el7'')]"
proof -
  let ?h = "example_host ''vim.x86_64   2:8.1-2.el7   updates''"
  let ?r = "\<lparr>name = ''vim'', state = ''latest''\<rparr>"
  let ?out = "map_of [(''Summary'', ''editor improved''), (''Repo'', ''installed''),
                  (''Release'', ''1.el7''), (''Version'', ''8.0''), (''Name'', ''vim'')]"
  have 1: "parse_fields (tl (split newline (fst (run_yum ?h [''info'', name ?r])))) = Inr ?out"
    by (simp add: example_host_info vim_info_fields del: split.simps)
  have 2: "?out ''Repo'' = Some ''installed''" "?out ''Version'' = Some ''8.0''"
    "?out ''Release'' = Some ''1.el7''"
    by simp_all
  have 3: "split newline (fst (run_yum ?h [''check-update'', name ?r]))
           = ''vim.x86_64   2:8.1-2.el7   updates'' # []"
    by (simp add: example_host_check_update split_lines_one del: split.simps)
  have 4: "\<not> startswith ''vim.x86_64   2:8.1-2.el7   updates'' ''Security:''"
    by (simp add: startswith_def)
  from check_resource_update_field [OF 1 2 3 columns_one_dash 4 split_dash_one]
  show ?thesis by simp
qed

subsection \<open>The change-set of the package handler\<close>

lemma check_resource_example_no_update:
  "check_resource (example_host []) \<lparr>name = ''vim'', state = ''latest''\<rparr> =
     Inr [''state'' \<mapsto> PyStr ''installed'', ''version'' \<mapsto> PyStr ''8.0'',
          ''release'' \<mapsto> PyStr ''1.el7'', ''update'' \<mapsto> PyNone]"
  by (simp add: check_resource_def example_host_info example_host_check_update vim_info_fields
        columns_empty bind_result_def getitem_def Let_def del: split.simps)
     (simp add: columns_empty)

text \<open>
  When the snapshot that \<open>check_resource\<close> returns already matches the desired
  state of the package, \<open>list_changes\<close> returns the empty change-set. What the
  snapshot is after the changes have been applied is decided by yum, not by the
  handler.
\<close>

lemma list_changes_empty_when_matching:
  assumes "check_resource host r = Inr cur" and "matches_desired r cur"
  shows "list_changes host r = Inr Map.empty"
  using assms
  by (auto simp add: list_changes_def matches_desired_def bind_result_def getitem_def)

lemma list_changes_empty_on_example_host:
  "check_resource (example_host []) \<lparr>name = ''vim'', state = ''latest''\<rparr> =
     Inr [''state'' \<mapsto> PyStr ''installed'', ''version'' \<mapsto> PyStr ''8.0'',
          ''release'' \<mapsto> PyStr ''1.el7'', ''update'' \<mapsto> PyNone]
   \<and> matches_desired \<lparr>name = ''vim'', state = ''latest''\<rparr>
        [''state'' \<mapsto> PyStr ''installed'', ''version'' \<mapsto> PyStr ''8.0'',
         ''release'' \<mapsto> PyStr ''1.el7'', ''update'' \<mapsto> PyNone]
   \<and> list_changes (example_host []) \<lparr>name = ''vim'', state = ''latest''\<rparr> = Inr Map.empty"
proof -
  let ?cur = "[''state'' \<mapsto> PyStr ''installed'', ''version'' \<mapsto> PyStr ''8.0'',
               ''release'' \<mapsto> PyStr ''1.el7'', ''update'' \<mapsto> PyNone]"
  have m: "matches_desired \<lparr>name = ''vim'', state = ''latest''\<rparr> ?cur"
    by (simp add: matches_desired_def)
  from list_changes_empty_when_matching [OF check_resource_example_no_update m]
       check_resource_example_no_update m
  show ?thesis by blast
qed

subsection \<open>The order of the fragments\<close>

text \<open>
  Claim C3 has fragments with equal sorting keys ordered by their values, so that the
  output depends on the multiset of fragments only. Two fragments with the sorting key
  \<open>a\<close> and the values \<open>z\<close> and \<open>b\<close> come out in the order they went in: the
  sort compares the keys alone and is stable.
\<close>

theorem generate_content_order_depends_on_input:
  "mset [\<lparr>frag_value = ''z'', sorting_key = Some ''a''\<rparr>, \<lparr>frag_value = ''b'', sorting_key = Some ''a''\<rparr>]
     = mset [\<lparr>frag_value = ''b'', sorting_key = Some ''a''\<rparr>, \<lparr>frag_value = ''z'', sorting_key = Some ''a''\<rparr>]
   \<and> generate_content [\<lparr>frag_value = ''z'', sorting_key = Some ''a''\<rparr>,
                        \<lparr>frag_value = ''b'', sorting_key = Some ''a''\<rparr>] '','' = ''z,b,''
   \<and> generate_content [\<lparr>frag_value = ''b'', sorting_key = Some ''a''\<rparr>,
                        \<lparr>frag_value = ''z'', sorting_key = Some ''a''\<rparr>] '','' = ''b,z,''"
  by (simp add: generate_content_def sort_tuple_def)

text \<open>
  Claim C3, amended: a fragment without a sorting key is sorted under its value.
  \<open>generate_content\<close> joins the values of the fragments in ascending order of their
  sorting keys, fragments with equal keys in the order of the input, and appends one
  separator. The output is the same for every order of the input when fragments with
  equal sorting keys have equal values.
\<close>

theorem generate_content_stable_by_key:
  "(sorting_key c = None \<longrightarrow> sort_tuple c = (frag_value c, frag_value c))
   \<and> (\<forall>k. sorting_key c = Some k \<longrightarrow> sort_tuple c = (k, frag_value c))
   \<and> (\<exists>ts. generate_content cl sep = join sep (map snd ts) @ sep
          \<and> mset ts = mset (map sort_tuple cl)
          \<and> sorted (map fst ts)
          \<and> (\<forall>k. filter (\<lambda>t. fst t = k) ts = filter (\<lambda>t. fst t = k) (map sort_tuple cl)))
   \<and> (mset cl' = mset cl \<and> inj_on fst (sort_tuple ` set cl) \<longrightarrow>
        generate_content cl' sep = generate_content cl sep)"
proof -
  let ?ts = "sort_key fst (map sort_tuple cl)"
  have a: "sorting_key c = None \<longrightarrow> sort_tuple c = (frag_value c, frag_value c)"
    by (simp add: sort_tuple_def)
  have b: "\<forall>k. sorting_key c = Some k \<longrightarrow> sort_tuple c = (k, frag_value c)"
    by (simp add: sort_tuple_def)
  have c: "generate_content cl sep = join sep (map snd ?ts) @ sep
          \<and> mset ?ts = mset (map sort_tuple cl)
          \<and> sorted (map fst ?ts)
          \<and> (\<forall>k. filter (\<lambda>t. fst t = k) ?ts = filter (\<lambda>t. fst t = k) (map sort_tuple cl))"
    by (simp add: generate_content_def sort_key_stable)
  have d: "generate_content cl' sep = generate_content cl sep"
    if m: "mset cl' = mset cl" and i: "inj_on fst (sort_tuple ` set cl)"
  proof -
    have m': "mset (map sort_tuple cl') = mset (sort_key fst (map sort_tuple cl))"
      using m by (metis mset_map mset_sort)
    have s: "set cl' = set cl"
      using m by (metis set_mset_mset)
    have "sort_key fst (map sort_tuple cl') = sort_key fst (map sort_tuple cl)"
      by (rule sort_key_inj_key_eq [OF m']) (simp_all add: s i)
    then show ?thesis by (simp add: generate_content_def)
  qed
  from a b c d show ?thesis by blast
qed

theorem generate_content_stable_by_key_witness:
  "generate_content [\<lparr>frag_value = ''z'', sorting_key = Some ''a''\<rparr>,
                     \<lparr>frag_value = ''b'', sorting_key = None\<rparr>] '',''
   = generate_content [\<lparr>frag_value = ''b'', sorting_key = None\<rparr>,
                       \<lparr>frag_value = ''z'', sorting_key = Some ''a''\<rparr>] '',''
   \<and> sort_tuple \<lparr>frag_value = ''b'', sorting_key = None\<rparr> = (''b'', ''b'')
   \<and> sort_tuple \<lparr>frag_value = ''z'', sorting_key = Some ''a''\<rparr> = (''a'', ''z'')"
  using generate_content_stable_by_key
     [where c = "\<lparr>frag_value = ''b'', sorting_key = None\<rparr>"
        and cl = "[\<lparr>frag_value = ''b'', sorting_key = None\<rparr>, \<lparr>frag_value = ''z'', sorting_key = Some ''a''\<rparr>]"
        and cl' = "[\<lparr>frag_value = ''z'', sorting_key = Some ''a''\<rparr>, \<lparr>frag_value = ''b'', sorting_key = None\<rparr>]"
        and sep = "'',''"]
    generate_content_stable_by_key
     [where c = "\<lparr>frag_value = ''z'', sorting_key = Some ''a''\<rparr>" and cl = "[]" and cl' = "[]" and sep = "[]"]
  by (simp add: sort_tuple_def)

subsection \<open>The assembled content of a file\<close>

text \<open>
  Claim C2 has one separator between the joined prefix fragments and the payload, and
  nothing behind the joined suffix fragments, for every payload that is not deferred.
  \<open>store_file\<close> puts two separators between the prefix and the payload, and one
  behind the suffix; and for a payload read from a local file, which is bytes, putting
  a block of fragments in front of it raises \<open>TypeError\<close>.
\<close>

theorem store_file_assembly_differs_from_specified:
  "store_file Map.empty id
      \<lparr>content = Plain ''X'', prefix_content = [\<lparr>frag_value = ''p'', sorting_key = None\<rparr>],
       suffix_content = [], content_seperator = '',''\<rparr> = Inr (Uploaded (Text ''p,,X''))
   \<and> specified_assembly
      \<lparr>content = Plain ''X'', prefix_content = [\<lparr>frag_value = ''p'', sorting_key = None\<rparr>],
       suffix_content = [], content_seperator = '',''\<rparr> ''X'' = ''p,X''
   \<and> store_file Map.empty id
      \<lparr>content = Plain ''X'', prefix_content = [],
       suffix_content = [\<lparr>frag_value = ''s'', sorting_key = None\<rparr>], content_seperator = '',''\<rparr>
       = Inr (Uploaded (Text ''X,s,''))
   \<and> specified_assembly
      \<lparr>content = Plain ''X'', prefix_content = [],
       suffix_content = [\<lparr>frag_value = ''s'', sorting_key = None\<rparr>], content_seperator = '',''\<rparr> ''X''
       = ''X,s''
   \<and> store_file [''/etc/motd'' \<mapsto> ''X''] id
      \<lparr>content = FileMarker ''/etc/motd'',
       prefix_content = [\<lparr>frag_value = ''p'', sorting_key = None\<rparr>],
       suffix_content = [], content_seperator = '',''\<rparr> = Inl TypeError"
  by (simp add: store_file_def add_fragments_def generate_content_def sort_tuple_def
        specified_assembly_def bind_result_def)

text \<open>
  A payload read from a local file: without fragments the bytes are uploaded as they
  were read; with prefix or suffix fragments \<open>store_file\<close> raises \<open>TypeError\<close>.
\<close>

lemma store_file_marker:
  assumes "content obj = FileMarker f" and "read_local f = Some b"
  shows "store_file read_local upload_file obj =
           (if prefix_content obj = [] \<and> suffix_content obj = []
            then Inr (Uploaded (upload_file (Bytes b)))
            else Inl TypeError)"
  using assms
  by (simp add: store_file_def add_fragments_def bind_result_def)

text \<open>
  Claim C2, amended: for a payload given directly (not deferred and not a marker of a
  local file), the uploaded text is: when there are prefix fragments, their ordered
  values joined with the separator and followed by two separators; then the payload;
  then, when there are suffix fragments, one separator, their ordered values joined
  with the separator, and one more separator.
\<close>

theorem store_file_assembly:
  assumes "content obj = Plain c0"
  shows "store_file read_local upload_file obj =
           Inr (Uploaded (upload_file (Text
             ((if prefix_content obj = [] then []
               else join (content_seperator obj)
                      (map snd (sort_key fst (map sort_tuple (prefix_content obj))))
                    @ content_seperator obj @ content_seperator obj)
              @ c0
              @ (if suffix_content obj = [] then []
                 else content_seperator obj
                      @ join (content_seperator obj)
                          (map snd (sort_key fst (map sort_tuple (suffix_content obj))))
                      @ content_seperator obj)))))"
  using assms
  by (simp add: store_file_def add_fragments_def generate_content_def bind_result_def)

theorem store_file_assembly_witness:
  "store_file Map.empty id
      \<lparr>content = Plain ''X'',
       prefix_content = [\<lparr>frag_value = ''q'', sorting_key = None\<rparr>, \<lparr>frag_value = ''p'', sorting_key = None\<rparr>],
       suffix_content = [\<lparr>frag_value = ''s'', sorting_key = None\<rparr>], content_seperator = '',''\<rparr>
     = Inr (Uploaded (Text ''p,q,,X,s,''))"
  using store_file_assembly
     [where obj = "\<lparr>content = Plain ''X'',
       prefix_content = [\<lparr>frag_value = ''q'', sorting_key = None\<rparr>, \<lparr>frag_value = ''p'', sorting_key = None\<rparr>],
       suffix_content = [\<lparr>frag_value = ''s'', sorting_key = None\<rparr>], content_seperator = '',''\<rparr>"
       and ?c0.0 = "''X''" and read_local = Map.empty and upload_file = id]
  by (simp add: sort_tuple_def)

end
